theory Spec2Isabelle
  imports Complex_Main
begin

section \<open>Strings\<close>

text \<open>
  Python strings are modelled as \<open>string\<close>, lists of \<open>char\<close>; a \<open>char\<close> stands for the
  code point of the same number, so the strings covered are those of code points below
  256 (Latin-1). On these, \<open>str.lower\<close> adds 32 to the code points of \<open>A..Z\<close> (65 to 90) and
  of the accented capitals (192 to 222, the multiplication sign 215 apart) and leaves every
  other character alone; \<open>str.strip\<close> and the pattern \<open>\s\<close> take as whitespace the code
  points 9 to 13, 28 to 32, 133 and 160; the pattern \<open>\d\<close> takes the digits \<open>0..9\<close> only.
\<close>

definition lower_char :: "char \<Rightarrow> char" where
  "lower_char c =
     (let n = of_char c :: nat
      in if (65 \<le> n \<and> n \<le> 90) \<or> (192 \<le> n \<and> n \<le> 222 \<and> n \<noteq> 215) then char_of (n + 32) else c)"

definition str_lower :: "string \<Rightarrow> string" where
  "str_lower s = map lower_char s"

definition is_space :: "char \<Rightarrow> bool" where
  "is_space c \<longleftrightarrow>
     (let n = of_char c :: nat
      in (9 \<le> n \<and> n \<le> 13) \<or> (28 \<le> n \<and> n \<le> 32) \<or> n = 133 \<or> n = 160)"

definition str_lstrip :: "string \<Rightarrow> string" where
  "str_lstrip s = dropWhile is_space s"

definition str_rstrip :: "string \<Rightarrow> string" where
  "str_rstrip s = rev (dropWhile is_space (rev s))"

definition str_strip :: "string \<Rightarrow> string" where
  "str_strip s = str_rstrip (str_lstrip s)"

text \<open>\<open>s.startswith(p)\<close> and the substring test \<open>sub in s\<close>.\<close>

fun startswith :: "string \<Rightarrow> string \<Rightarrow> bool" where
  "startswith s [] = True"
| "startswith [] (p # ps) = False"
| "startswith (c # cs) (p # ps) = (c = p \<and> startswith cs ps)"

fun str_contains :: "string \<Rightarrow> string \<Rightarrow> bool" where
  "str_contains [] sub = (sub = [])"
| "str_contains (c # cs) sub = (startswith (c # cs) sub \<or> str_contains cs sub)"

text \<open>\<open>s.split(sep)\<close> for a one-character separator: never returns the empty list.\<close>

fun str_split :: "char \<Rightarrow> string \<Rightarrow> string list" where
  "str_split sep [] = [[]]"
| "str_split sep (c # cs) =
     (if c = sep then [] # str_split sep cs
      else (case str_split sep cs of
              [] \<Rightarrow> [[c]]
            | t # ts \<Rightarrow> (c # t) # ts))"

section \<open>Genre list (load_data, the lambda building \<open>genre_list\<close>)\<close>

definition no_genres_listed :: string where
  "no_genres_listed = ''(no genres listed)''"

text \<open>
  \<open>[g.strip() for g in str(x).split('|') if g and g != '(no genres listed)']\<close>:
  the filter looks at the token as split, the trimming happens afterwards.
\<close>

definition genre_list_of :: "string \<Rightarrow> string list" where
  "genre_list_of x =
     map str_strip (filter (\<lambda>g. g \<noteq> [] \<and> g \<noteq> no_genres_listed) (str_split (CHR ''|'') x))"

section \<open>Title helpers\<close>

definition is_digit :: "char \<Rightarrow> bool" where
  "is_digit c \<longleftrightarrow> c \<in> set ''0123456789''"

definition digit_val :: "char \<Rightarrow> int" where
  "digit_val c =
     (case map_of (zip ''0123456789'' [0, 1, 2, 3, 4, 5, 6, 7, 8, 9]) c of
        Some v \<Rightarrow> v
      | None \<Rightarrow> 0)"

text \<open>
  \<open>_extract_year\<close>: \<open>re.search(r'\((\d{4})\)', str(title))\<close>, the leftmost parenthesised
  group of exactly four digits, converted with \<open>int\<close>; \<open>None\<close> when there is none.
\<close>

fun extract_year :: "string \<Rightarrow> int option" where
  "extract_year (a # b # c # d # e # f # rest) =
     (if a = CHR ''('' \<and> is_digit b \<and> is_digit c \<and> is_digit d \<and> is_digit e \<and> f = CHR '')''
      then Some (1000 * digit_val b + 100 * digit_val c + 10 * digit_val d + digit_val e)
      else extract_year (b # c # d # e # f # rest))"
| "extract_year _ = None"

text \<open>
  \<open>_clean_title\<close>: \<open>re.sub(r'\s*\(\d{4}\)\s*$', '', str(title)).strip()\<close>. The pattern is
  anchored at the end, so it matches exactly when the title, trailing whitespace removed,
  ends in a parenthesised four-digit group; the match and the whitespace before it go, and
  the result is trimmed.
\<close>

definition ends_with_year :: "string \<Rightarrow> bool" where
  "ends_with_year s \<longleftrightarrow>
     (case rev s of
        f # e # d # c # b # a # _ \<Rightarrow>
          a = CHR ''('' \<and> is_digit b \<and> is_digit c \<and> is_digit d \<and> is_digit e \<and> f = CHR '')''
      | _ \<Rightarrow> False)"

definition clean_title_of :: "string \<Rightarrow> string" where
  "clean_title_of t =
     (let r = str_rstrip t
      in if ends_with_year r then str_strip (take (length r - 6) r) else str_strip t)"

text \<open>\<open>s.replace(old, new)\<close> for a non-empty \<open>old\<close>: leftmost non-overlapping occurrences.\<close>

function str_replace :: "string \<Rightarrow> string \<Rightarrow> string \<Rightarrow> string" where
  "str_replace [] old new = []"
| "str_replace (c # cs) old new =
     (if old \<noteq> [] \<and> startswith (c # cs) old
      then new @ str_replace (drop (length old - 1) cs) old new
      else c # str_replace cs old new)"
  by pat_completeness auto
termination
  by (relation "measure (\<lambda>(s, old, new). length s)") auto

section \<open>The catalog: a data frame of movie rows\<close>

text \<open>
  A pandas cell that is empty in the CSV file is NaN; such a cell is \<open>None\<close> here. A row
  carries a cell for every column the code knows; \<open>columns\<close> says which columns the frame
  has, and the cell of a column the frame does not have is never read. Each row is paired
  with its index label, which \<open>dropna\<close> and \<open>drop_duplicates\<close> keep and \<open>reset_index\<close>
  renumbers. Floats are modelled as real numbers. The \<open>movieId\<close> cell of every row is an
  integer and the title and genre cells are strings: files with an empty id or with
  numbers for titles are not covered.
\<close>

record row =
  movieId :: int
  title :: "string option"
  genres :: "string option"
  year :: "int option"
  clean_title :: "string option"
  rating :: "real option"
  vote_count :: "int option"
  popularity :: "real option"
  overview :: "string option"
  genres_processed :: string
  genre_list :: "string list"

record dataframe =
  columns :: "string list"
  rows :: "(nat \<times> row) list"

datatype py_exn =
    FileNotFoundError string
  | ValueError string
  | KeyError string
  | IndexError string
  | TypeError string

fun exn_str :: "py_exn \<Rightarrow> string" where
  "exn_str (FileNotFoundError m) = m"
| "exn_str (ValueError m) = m"
| "exn_str (KeyError m) = [CHR 0x27] @ m @ [CHR 0x27]"
| "exn_str (IndexError m) = m"
| "exn_str (TypeError m) = m"

text \<open>\<open>str(x)\<close> of a cell: the string itself, or \<open>'nan'\<close> for a missing cell.\<close>

definition str_cell :: "string option \<Rightarrow> string" where
  "str_cell x = (case x of Some s \<Rightarrow> s | None \<Rightarrow> ''nan'')"

text \<open>\<open>df.dropna(subset=['title', 'genres'])\<close>\<close>

definition dropna :: "dataframe \<Rightarrow> dataframe" where
  "dropna d = d\<lparr>rows := filter (\<lambda>(i, r). title r \<noteq> None \<and> genres r \<noteq> None) (rows d)\<rparr>"

text \<open>\<open>df.drop_duplicates(subset=['title'])\<close>: the first row of each title stays.\<close>

fun drop_dups :: "string option list \<Rightarrow> (nat \<times> row) list \<Rightarrow> (nat \<times> row) list" where
  "drop_dups seen [] = []"
| "drop_dups seen (p # ps) =
     (if title (snd p) \<in> set seen then drop_dups seen ps
      else p # drop_dups (title (snd p) # seen) ps)"

definition drop_duplicates :: "dataframe \<Rightarrow> dataframe" where
  "drop_duplicates d = d\<lparr>rows := drop_dups [] (rows d)\<rparr>"

text \<open>\<open>df.reset_index(drop=True)\<close>\<close>

definition reset_index :: "dataframe \<Rightarrow> dataframe" where
  "reset_index d = d\<lparr>rows := zip [0..<length (rows d)] (map snd (rows d))\<rparr>"

text \<open>Assigning a whole column: \<open>df[name] = ...\<close> computed row by row.\<close>

definition set_column :: "string \<Rightarrow> (row \<Rightarrow> row) \<Rightarrow> dataframe \<Rightarrow> dataframe" where
  "set_column name f d =
     \<lparr>columns = (if name \<in> set (columns d) then columns d else columns d @ [name]),
      rows = map (\<lambda>(i, r). (i, f r)) (rows d)\<rparr>"

definition ensure_column :: "string \<Rightarrow> (row \<Rightarrow> row) \<Rightarrow> dataframe \<Rightarrow> dataframe" where
  "ensure_column name f d = (if name \<notin> set (columns d) then set_column name f d else d)"

text \<open>\<open>_ensure_columns\<close>: a display column that the frame lacks is created with its default.\<close>

definition ensure_columns :: "dataframe \<Rightarrow> dataframe" where
  "ensure_columns d =
     (let d1 = ensure_column ''year'' (\<lambda>r. r\<lparr>year := extract_year (str_cell (title r))\<rparr>) d;
          d2 = ensure_column ''clean_title''
                 (\<lambda>r. r\<lparr>clean_title := Some (clean_title_of (str_cell (title r)))\<rparr>) d1;
          d3 = ensure_column ''rating'' (\<lambda>r. r\<lparr>rating := Some 7.0\<rparr>) d2;
          d4 = ensure_column ''vote_count'' (\<lambda>r. r\<lparr>vote_count := Some 1000\<rparr>) d3;
          d5 = ensure_column ''popularity'' (\<lambda>r. r\<lparr>popularity := Some 50.0\<rparr>) d4
      in ensure_column ''overview'' (\<lambda>r. r\<lparr>overview := Some ''A great movie to watch!''\<rparr>) d5)"

section \<open>The recommender and load_data\<close>

text \<open>
  The recommender object. The fitted vectorizer and the poster cache are not read by any
  function modelled here and are left out.
\<close>

record recommender =
  df :: "dataframe option"
  tfidf_matrix :: "real list list option"
  is_loaded :: bool
  error_message :: "string option"

text \<open>\<open>__init__\<close> before it calls \<open>load_data\<close>.\<close>

definition init_state :: recommender where
  "init_state = \<lparr>df = None, tfidf_matrix = None, is_loaded = False, error_message = None\<rparr>"

text \<open>
  The outside world of \<open>load_data\<close>: a path that does not exist is \<open>None\<close>; for one that
  exists, \<open>pd.read_csv\<close> either raises or yields a frame. \<open>TfidfVectorizer.fit_transform\<close>
  belongs to scikit-learn and is a parameter: it raises (for instance on an empty
  vocabulary) or yields one weight vector per document.
\<close>

type_synonym filesystem = "string \<Rightarrow> (py_exn + dataframe) option"

type_synonym vectorizer = "string list \<Rightarrow> py_exn + real list list"

definition files_to_try :: "string \<Rightarrow> string list" where
  "files_to_try csv_path =
     [''tmdb_movies_processed.csv'', csv_path, ''movies_with_posters.csv'',
      ''movies_enhanced.csv'', ''movies.csv'']"

fun first_existing :: "filesystem \<Rightarrow> string list \<Rightarrow> (py_exn + dataframe) option" where
  "first_existing fs [] = None"
| "first_existing fs (p # ps) =
     (case fs p of Some r \<Rightarrow> Some r | None \<Rightarrow> first_existing fs ps)"

definition required_cols :: "string set" where
  "required_cols = {''movieId'', ''title'', ''genres''}"

text \<open>The two \<open>except\<close> clauses of \<open>load_data\<close>.\<close>

definition handle_exn :: "py_exn \<Rightarrow> recommender \<Rightarrow> recommender" where
  "handle_exn e self =
     (case e of
        FileNotFoundError m \<Rightarrow> self\<lparr>error_message := Some m\<rparr>
      | _ \<Rightarrow> self\<lparr>error_message := Some (''Error loading data: '' @ exn_str e)\<rparr>)"

text \<open>The cleaning and derivation steps between the column check and the vectorizer.\<close>

definition clean_frame :: "dataframe \<Rightarrow> dataframe" where
  "clean_frame d = reset_index (drop_duplicates (dropna d))"

definition process_genres :: "dataframe \<Rightarrow> dataframe" where
  "process_genres d =
     (let d1 = set_column ''genres_processed''
                 (\<lambda>r. r\<lparr>genres_processed := str_replace (str_cell (genres r)) ''|'' '' ''\<rparr>) d;
          d2 = set_column ''genres_processed''
                 (\<lambda>r. r\<lparr>genres_processed := str_replace (genres_processed r) no_genres_listed []\<rparr>) d1
      in set_column ''genre_list'' (\<lambda>r. r\<lparr>genre_list := genre_list_of (str_cell (genres r))\<rparr>) d2)"

definition prepare_frame :: "dataframe \<Rightarrow> dataframe" where
  "prepare_frame d = process_genres (ensure_columns (clean_frame d))"

text \<open>
  The \<open>try\<close> block of \<open>load_data\<close>: the recommender as the block leaves it, and the
  exception it raised, if any. Every assignment to \<open>self\<close> made before an exception is
  raised stays; the loaded flag is only set by the last statement of the block. The text
  of the message about missing columns prints a Python set, in one of its orders.
\<close>

definition load_body ::
  "vectorizer \<Rightarrow> filesystem \<Rightarrow> string \<Rightarrow> recommender \<Rightarrow> recommender \<times> py_exn option" where
  "load_body fit_transform fs csv_path self =
     (case first_existing fs (files_to_try csv_path) of
        None \<Rightarrow> (self, Some (FileNotFoundError ''No movie dataset found''))
      | Some (Inl e) \<Rightarrow> (self, Some e)
      | Some (Inr d) \<Rightarrow>
          if \<not> required_cols \<subseteq> set (columns d)
          then (self\<lparr>df := Some d\<rparr>,
                Some (ValueError ''CSV must contain columns: {'movieId', 'title', 'genres'}''))
          else
            (let d' = prepare_frame d
             in case fit_transform (map (\<lambda>(i, r). genres_processed r) (rows d')) of
                  Inl e \<Rightarrow> (self\<lparr>df := Some d'\<rparr>, Some e)
                | Inr m \<Rightarrow>
                    (self\<lparr>df := Some d', tfidf_matrix := Some m, is_loaded := True\<rparr>, None)))"

text \<open>\<open>load_data\<close>: the \<open>try\<close> block, and the handlers for what it raises.\<close>

definition load_data :: "vectorizer \<Rightarrow> filesystem \<Rightarrow> string \<Rightarrow> recommender \<Rightarrow> recommender" where
  "load_data fit_transform fs csv_path self =
     (case load_body fit_transform fs csv_path self of
        (self', None) \<Rightarrow> self'
      | (self', Some e) \<Rightarrow> handle_exn e self')"

text \<open>\<open>MovieRecommender(csv_path)\<close>\<close>

definition MovieRecommender :: "vectorizer \<Rightarrow> filesystem \<Rightarrow> string \<Rightarrow> recommender" where
  "MovieRecommender fit_transform fs csv_path = load_data fit_transform fs csv_path init_state"


section \<open>Movie dictionaries (_movie_to_dict)\<close>

text \<open>
  \<open>round(x, 1)\<close>: to the nearest multiple of one tenth, a tie going to the even neighbour.
\<close>

definition round_half_even :: "real \<Rightarrow> int" where
  "round_half_even y =
     (let f = \<lfloor>y\<rfloor>; d = y - of_int f
      in if d < 1 / 2 then f else if 1 / 2 < d then f + 1 else if even f then f else f + 1)"

definition py_round1 :: "real \<Rightarrow> real" where
  "py_round1 x = of_int (round_half_even (x * 10)) / 10"

text \<open>
  The dictionary that \<open>_movie_to_dict\<close> builds. The key \<open>poster_url\<close> is left out: its
  value comes from a network lookup whose failures are swallowed, and no other key
  depends on it. \<open>m_rank\<close> and \<open>m_similarity_score\<close> are \<open>None\<close> when the key is absent;
  \<open>m_rating = None\<close> is the float NaN.
\<close>

record movie =
  m_id :: int
  m_title :: "string option"
  m_clean_title :: "string option"
  m_year :: "int option"
  m_genres :: "string list"
  m_rating :: "real option"
  m_vote_count :: int
  m_overview :: "string option"
  m_rank :: "nat option"
  m_similarity_score :: "real option"

text \<open>
  \<open>row[key]\<close> raises KeyError for a column the frame lacks; \<open>row.get(key, default)\<close> yields
  the default only then: the cell of an existing column is returned as it is, empty or not.
  \<open>int\<close> of an empty (NaN) cell raises ValueError, \<open>float\<close> of it is NaN.
\<close>

definition row_get :: "string list \<Rightarrow> string \<Rightarrow> 'a \<Rightarrow> 'a \<Rightarrow> 'a" where
  "row_get cols key cell dflt = (if key \<in> set cols then cell else dflt)"

definition movie_to_dict :: "string list \<Rightarrow> row \<Rightarrow> nat option \<Rightarrow> real option \<Rightarrow> py_exn + movie" where
  "movie_to_dict cols r rank similarity =
     (if ''movieId'' \<notin> set cols then Inl (KeyError ''movieId'')
      else if ''title'' \<notin> set cols then Inl (KeyError ''title'')
      else
        (case row_get cols ''vote_count'' (vote_count r) (Some 1000) of
           None \<Rightarrow> Inl (ValueError ''cannot convert float NaN to integer'')
         | Some vc \<Rightarrow>
             Inr \<lparr>m_id = movieId r,
                  m_title = title r,
                  m_clean_title =
                    row_get cols ''clean_title'' (clean_title r)
                      (Some (clean_title_of (str_cell (title r)))),
                  m_year = row_get cols ''year'' (year r) (extract_year (str_cell (title r))),
                  m_genres = row_get cols ''genre_list'' (genre_list r) [],
                  m_rating = row_get cols ''rating'' (rating r) (Some 7.0),
                  m_vote_count = vc,
                  m_overview = row_get cols ''overview'' (overview r) (Some ''A great movie to watch!''),
                  m_rank = rank,
                  m_similarity_score = map_option (\<lambda>s. py_round1 (s * 100)) similarity\<rparr>))"

section \<open>find_movie\<close>

text \<open>
  The three masks of \<open>find_movie\<close>. \<open>Series.str.lower()\<close> keeps an empty cell empty, an
  empty cell compares unequal to every string, and \<open>str.contains(..., na=False)\<close> is false
  on it. \<open>index[0]\<close> is the index label of the first row of the selection.
\<close>

definition lower_eq :: "string option \<Rightarrow> string \<Rightarrow> bool" where
  "lower_eq cell q = (case cell of None \<Rightarrow> False | Some s \<Rightarrow> str_lower s = q)"

definition lower_contains :: "string option \<Rightarrow> string \<Rightarrow> bool" where
  "lower_contains cell q = (case cell of None \<Rightarrow> False | Some s \<Rightarrow> str_contains (str_lower s) q)"

definition first_index :: "(nat \<times> row) list \<Rightarrow> nat option" where
  "first_index sel = (case sel of [] \<Rightarrow> None | (i, r) # _ \<Rightarrow> Some i)"

definition find_movie :: "recommender \<Rightarrow> string \<Rightarrow> py_exn + nat option" where
  "find_movie self query =
     (if \<not> is_loaded self then Inr None
      else
        (case df self of
           None \<Rightarrow> Inl (TypeError ''NoneType object is not subscriptable'')
         | Some d \<Rightarrow>
             (let query_lower = str_strip (str_lower query)
              in if ''title'' \<notin> set (columns d) then Inl (KeyError ''title'')
                 else
                   (case first_index (filter (\<lambda>(i, r). lower_eq (title r) query_lower) (rows d)) of
                      Some i \<Rightarrow> Inr (Some i)
                    | None \<Rightarrow>
                        if ''clean_title'' \<notin> set (columns d) then Inl (KeyError ''clean_title'')
                        else
                          (case first_index
                                  (filter (\<lambda>(i, r). lower_eq (clean_title r) query_lower) (rows d)) of
                             Some i \<Rightarrow> Inr (Some i)
                           | None \<Rightarrow>
                               Inr (first_index
                                      (filter (\<lambda>(i, r). lower_contains (clean_title r) query_lower)
                                         (rows d))))))))"

section \<open>Similarity and ranking\<close>

text \<open>
  scikit-learn's \<open>cosine_similarity(X, Y)\<close>: every row is divided by its Euclidean norm (a
  zero norm is replaced by one), then the dot products are taken. All rows of one matrix
  have the same width.
\<close>

definition dot :: "real list \<Rightarrow> real list \<Rightarrow> real" where
  "dot x y = sum_list (map2 (*) x y)"

definition l2_norm :: "real list \<Rightarrow> real" where
  "l2_norm x = sqrt (sum_list (map (\<lambda>a. a * a) x))"

definition normalize :: "real list \<Rightarrow> real list" where
  "normalize x = (let n = l2_norm x in map (\<lambda>a. a / (if n = 0 then 1 else n)) x)"

definition cosine_similarity :: "real list \<Rightarrow> real list list \<Rightarrow> real list" where
  "cosine_similarity x Y = map (\<lambda>y. dot (normalize x) (normalize y)) Y"

text \<open>
  numpy's \<open>argsort\<close> yields the positions of the array in ascending order of their
  values. In which order it puts the positions of equal values is not part of its
  contract (the default sort kind is not a stable one), so the functions below take the
  sort as a parameter: \<open>argsort_spec\<close> is the contract, \<open>argsort\<close> the stable sort, which is
  how numpy's default kind sorts a short array (by insertion).
\<close>

type_synonym argsorter = "real list \<Rightarrow> nat list"

definition argsort_spec :: "argsorter \<Rightarrow> bool" where
  "argsort_spec sorter \<longleftrightarrow>
     (\<forall>xs. distinct (sorter xs) \<and> set (sorter xs) = {0..<length xs} \<and>
           sorted (map (\<lambda>i. xs ! i) (sorter xs)))"

definition argsort :: argsorter where
  "argsort xs = sort_key (\<lambda>i. xs ! i) [0..<length xs]"

text \<open>The slice \<open>xs[:n]\<close>; a negative \<open>n\<close> counts from the end.\<close>

definition slice_to :: "int \<Rightarrow> 'a list \<Rightarrow> 'a list" where
  "slice_to n xs = (if 0 \<le> n then take (nat n) xs else take (nat (int (length xs) + n)) xs)"

text \<open>
  \<open>similarity_scores.argsort()[::-1]\<close>, then
  \<open>[i for i in similar_indices if i != idx][:n_recommendations]\<close>.
\<close>

definition similar_indices :: "argsorter \<Rightarrow> real list \<Rightarrow> nat \<Rightarrow> int \<Rightarrow> nat list" where
  "similar_indices sorter similarity_scores idx n_recommendations =
     slice_to n_recommendations (filter (\<lambda>i. i \<noteq> idx) (rev (sorter similarity_scores)))"

text \<open>\<open>df.iloc[i]\<close>: the row at position \<open>i\<close>, whatever its index label.\<close>

definition iloc :: "dataframe \<Rightarrow> nat \<Rightarrow> py_exn + row" where
  "iloc d i =
     (if i < length (rows d) then Inr (snd (rows d ! i))
      else Inl (IndexError ''single positional indexer is out-of-bounds''))"

text \<open>The loop \<open>for rank, sim_idx in enumerate(similar_indices, 1)\<close>.\<close>

fun build_recommendations :: "dataframe \<Rightarrow> real list \<Rightarrow> nat \<Rightarrow> nat list \<Rightarrow> py_exn + movie list" where
  "build_recommendations d scores rank [] = Inr []"
| "build_recommendations d scores rank (sim_idx # rest) =
     (case iloc d sim_idx of
        Inl e \<Rightarrow> Inl e
      | Inr r \<Rightarrow>
          (case movie_to_dict (columns d) r (Some rank) (Some (scores ! sim_idx)) of
             Inl e \<Rightarrow> Inl e
           | Inr m \<Rightarrow>
               (case build_recommendations d scores (Suc rank) rest of
                  Inl e \<Rightarrow> Inl e
                | Inr ms \<Rightarrow> Inr (m # ms))))"

section \<open>get_recommendations\<close>

record rec_result =
  selected_movie :: "movie option"
  recommendations :: "movie list"
  error :: "string option"

text \<open>The dictionary \<open>{'error': msg, 'recommendations': []}\<close>.\<close>

definition error_result :: "string \<Rightarrow> rec_result" where
  "error_result msg = \<lparr>selected_movie = None, recommendations = [], error = Some msg\<rparr>"

text \<open>\<open>self.error_message or 'Data not loaded'\<close>\<close>

definition message_or_default :: "string option \<Rightarrow> string" where
  "message_or_default m =
     (case m of None \<Rightarrow> ''Data not loaded'' | Some s \<Rightarrow> if s = [] then ''Data not loaded'' else s)"

text \<open>The part of \<open>get_recommendations\<close> after the movie index \<open>idx\<close> is known.\<close>

definition recommend_at :: "argsorter \<Rightarrow> recommender \<Rightarrow> nat \<Rightarrow> int \<Rightarrow> py_exn + rec_result" where
  "recommend_at sorter self idx n_recommendations =
     (case df self of
        None \<Rightarrow> Inl (TypeError ''NoneType object has no attribute iloc'')
      | Some d \<Rightarrow>
          (case iloc d idx of
             Inl e \<Rightarrow> Inl e
           | Inr selected_row \<Rightarrow>
               (case movie_to_dict (columns d) selected_row None None of
                  Inl e \<Rightarrow> Inl e
                | Inr selected \<Rightarrow>
                    (case tfidf_matrix self of
                       None \<Rightarrow> Inl (TypeError ''NoneType object is not subscriptable'')
                     | Some M \<Rightarrow>
                         if length M \<le> idx then Inl (IndexError ''row index out of range'')
                         else
                           (let movie_vector = M ! idx;
                                similarity_scores = cosine_similarity movie_vector M;
                                sims = similar_indices sorter similarity_scores idx n_recommendations
                            in case build_recommendations d similarity_scores 1 sims of
                                 Inl e \<Rightarrow> Inl e
                               | Inr recs \<Rightarrow>
                                   Inr \<lparr>selected_movie = Some selected,
                                        recommendations = recs,
                                        error = None\<rparr>)))))"

text \<open>\<open>get_recommendations\<close>, for a given sort behind \<open>argsort()\<close>.\<close>

definition get_recommendations_by ::
  "argsorter \<Rightarrow> recommender \<Rightarrow> int option \<Rightarrow> string option \<Rightarrow> int \<Rightarrow> py_exn + rec_result" where
  "get_recommendations_by sorter self movie_id movie_title n_recommendations =
     (if \<not> is_loaded self then Inr (error_result (message_or_default (error_message self)))
      else
        (case movie_id of
           Some mid \<Rightarrow>
             (case df self of
                None \<Rightarrow> Inl (TypeError ''NoneType object is not subscriptable'')
              | Some d \<Rightarrow>
                  if ''movieId'' \<notin> set (columns d) then Inl (KeyError ''movieId'')
                  else
                    (case first_index (filter (\<lambda>(i, r). movieId r = mid) (rows d)) of
                       None \<Rightarrow> Inr (error_result ''Movie not found'')
                     | Some idx \<Rightarrow> recommend_at sorter self idx n_recommendations))
         | None \<Rightarrow>
             (case movie_title of
                None \<Rightarrow> Inr (error_result ''Please provide a movie ID or title'')
              | Some t \<Rightarrow>
                  if t = [] then Inr (error_result ''Please provide a movie ID or title'')
                  else
                    (case find_movie self t of
                       Inl e \<Rightarrow> Inl e
                     | Inr None \<Rightarrow>
                         Inr (error_result
                                (''Could not find movie: '' @ [CHR 0x22] @ t @ [CHR 0x22]))
                     | Inr (Some idx) \<Rightarrow> recommend_at sorter self idx n_recommendations))))"

text \<open>\<open>get_recommendations\<close> with the stable sort.\<close>

definition get_recommendations ::
  "recommender \<Rightarrow> int option \<Rightarrow> string option \<Rightarrow> int \<Rightarrow> py_exn + rec_result" where
  "get_recommendations self movie_id movie_title n_recommendations =
     get_recommendations_by argsort self movie_id movie_title n_recommendations"

section \<open>Loaded catalogs\<close>

text \<open>
  What \<open>load_data\<close> leaves behind when it succeeds, as far as the queries rely on it: the
  frame and the matrix are there, index labels are the positions, titles are distinct, the
  matrix has one row per record, and the columns that the queries read exist.
\<close>

definition catalog_ok :: "recommender \<Rightarrow> bool" where
  "catalog_ok self \<longleftrightarrow>
     is_loaded self \<and>
     (case df self of
        None \<Rightarrow> False
      | Some d \<Rightarrow>
          map fst (rows d) = [0..<length (rows d)] \<and>
          distinct (map (\<lambda>(i, r). title r) (rows d)) \<and>
          {''movieId'', ''title'', ''clean_title''} \<subseteq> set (columns d) \<and>
          (case tfidf_matrix self of None \<Rightarrow> False | Some M \<Rightarrow> length M = length (rows d)))"

text \<open>The number of records and the rows of a recommender's frame.\<close>

definition catalog_rows :: "recommender \<Rightarrow> row list" where
  "catalog_rows self = (case df self of None \<Rightarrow> [] | Some d \<Rightarrow> map snd (rows d))"

text \<open>No record has an empty vote count cell.\<close>

definition votes_present :: "recommender \<Rightarrow> bool" where
  "votes_present self \<longleftrightarrow> list_all (\<lambda>r. vote_count r \<noteq> None) (catalog_rows self)"


text \<open>Two frames agree on the index labels and on the cells of the three required columns.\<close>

definition same_keys :: "dataframe \<Rightarrow> dataframe \<Rightarrow> bool" where
  "same_keys d' d \<longleftrightarrow>
     map (\<lambda>(i, r). (i, movieId r, title r, genres r)) (rows d') =
     map (\<lambda>(i, r). (i, movieId r, title r, genres r)) (rows d)"

section \<open>Deduplication as the specification words it\<close>

text \<open>
  "Deduplicates by exact title match, keeping the first occurrence": the first row stays,
  and every later row with its title goes.
\<close>

fun keep_first :: "row list \<Rightarrow> row list" where
  "keep_first [] = []"
| "keep_first (r # rs) = r # keep_first (filter (\<lambda>q. title q \<noteq> title r) rs)"

section \<open>Title resolution as the specification words it\<close>

text \<open>
  "First match wins": the first record whose raw title equals the query, else the first
  whose clean title equals it, else the first whose clean title contains it, else nothing;
  the comparisons are made on lower-cased titles.
\<close>

definition resolve_title :: "(nat \<times> row) list \<Rightarrow> string \<Rightarrow> nat option" where
  "resolve_title rs q =
     (case find (\<lambda>(i, r). lower_eq (title r) q) rs of
        Some (i, r) \<Rightarrow> Some i
      | None \<Rightarrow>
          (case find (\<lambda>(i, r). lower_eq (clean_title r) q) rs of
             Some (i, r) \<Rightarrow> Some i
           | None \<Rightarrow>
               (case find (\<lambda>(i, r). lower_contains (clean_title r) q) rs of
                  Some (i, r) \<Rightarrow> Some i
                | None \<Rightarrow> None)))"

section \<open>Sample data\<close>

text \<open>
  Frames as \<open>pd.read_csv\<close> yields them: the index labels are the positions, and a cell that
  the file leaves empty is \<open>None\<close>.
\<close>

definition blank_row :: row where
  "blank_row =
     \<lparr>movieId = 0, title = None, genres = None, year = None, clean_title = None, rating = None,
      vote_count = None, popularity = None, overview = None, genres_processed = [],
      genre_list = []\<rparr>"

definition csv_row :: "int \<Rightarrow> string option \<Rightarrow> string option \<Rightarrow> row" where
  "csv_row i t g = blank_row\<lparr>movieId := i, title := t, genres := g\<rparr>"

definition csv_frame :: "string list \<Rightarrow> row list \<Rightarrow> dataframe" where
  "csv_frame cols rs = \<lparr>columns = cols, rows = zip [0..<length rs] rs\<rparr>"

text \<open>
  A stand-in for the scikit-learn vectorizer in the examples: the weight vector of a
  document says which of three genre names occur in it.
\<close>

definition sample_vectorizer :: vectorizer where
  "sample_vectorizer docs =
     Inr (map (\<lambda>doc. map (\<lambda>w. if str_contains doc w then 1 else 0)
                        [''Action'', ''Comedy'', ''Drama'']) docs)"

text \<open>A file system that holds the one file \<open>movies.csv\<close>.\<close>

definition one_file :: "dataframe \<Rightarrow> filesystem" where
  "one_file d = (\<lambda>p. if p = ''movies.csv'' then Some (Inr d) else None)"

text \<open>
  Six rows with the three required columns: one without a title, one without genres, and
  one that repeats an earlier title.
\<close>

definition sample_frame :: dataframe where
  "sample_frame =
     csv_frame [''movieId'', ''title'', ''genres'']
       [csv_row 1 (Some ''Heat (1995)'') (Some ''Action''),
        csv_row 2 None (Some ''Comedy''),
        csv_row 3 (Some ''Big (1988)'') (Some ''Comedy''),
        csv_row 4 (Some ''Heat (1995)'') (Some ''Drama''),
        csv_row 5 (Some ''Fargo (1996)'') None,
        csv_row 6 (Some ''Speed (1994)'') (Some ''Action'')]"

text \<open>A file with a rating column in which the only row leaves the rating empty.\<close>

definition rated_frame :: dataframe where
  "rated_frame =
     csv_frame [''movieId'', ''title'', ''genres'', ''rating'', ''vote_count'', ''popularity'']
       [csv_row 1 (Some ''Heat (1995)'') (Some ''Action'')]"

text \<open>The recommender that loads \<open>sample_frame\<close>.\<close>

definition sample_state :: recommender where
  "sample_state = MovieRecommender sample_vectorizer (one_file sample_frame) ''movies.csv''"

text \<open>A file in which the title of the second row ends in a blank.\<close>

definition padded_frame :: dataframe where
  "padded_frame =
     csv_frame [''movieId'', ''title'', ''genres'']
       [csv_row 1 (Some ''Big (1988)'') (Some ''Comedy''),
        csv_row 2 (Some ''Heat (1995) '') (Some ''Action'')]"

text \<open>Three films of one genre and one of another, and the recommender that loads them.\<close>

definition tie_frame :: dataframe where
  "tie_frame =
     csv_frame [''movieId'', ''title'', ''genres'']
       [csv_row 1 (Some ''Heat (1995)'') (Some ''Action''),
        csv_row 2 (Some ''Speed (1994)'') (Some ''Action''),
        csv_row 3 (Some ''Ronin (1998)'') (Some ''Action''),
        csv_row 4 (Some ''Big (1988)'') (Some ''Comedy'')]"

definition tie_state :: recommender where
  "tie_state = MovieRecommender sample_vectorizer (one_file tie_frame) ''movies.csv''"

text \<open>A file with a vote count column in which the second row leaves the vote count empty.\<close>

definition voteless_frame :: dataframe where
  "voteless_frame =
     csv_frame [''movieId'', ''title'', ''genres'', ''vote_count'']
       [csv_row 1 (Some ''Heat (1995)'') (Some ''Action'')\<lparr>vote_count := Some 12\<rparr>,
        csv_row 2 (Some ''Speed (1994)'') (Some ''Action'')]"

section \<open>Genre lists\<close>

lemma genre_list_of_example:
  "genre_list_of ''Action|Adventure|(no genres listed)'' = [''Action'', ''Adventure'']"
  by (simp add: genre_list_of_def no_genres_listed_def str_strip_def str_lstrip_def
      str_rstrip_def is_space_def)

text \<open>
  C6: the genre list keeps the order of the pipe-delimited string, trims each token and
  never contains the sentinel or an empty token. The code filters before it trims: a
  sentinel with a blank beside it passes the filter and is then trimmed to the bare
  sentinel, and a token of blanks passes it and is trimmed to the empty token.
\<close>

theorem genre_list_of_padded_tokens:
  "genre_list_of ''Action| (no genres listed)'' = [''Action'', ''(no genres listed)''] \<and>
   genre_list_of ''Action| |Drama'' = [''Action'', '''', ''Drama'']"
  by (simp add: genre_list_of_def no_genres_listed_def str_strip_def str_lstrip_def
      str_rstrip_def is_space_def)

section \<open>Queries on a catalog that is not loaded, and failing loads\<close>

text \<open>
  C7: on a recommender that is not loaded, \<open>get_recommendations\<close> returns, for every
  argument, an error result with a non-empty message and no recommendations; and whenever
  the \<open>try\<close> block of \<open>load_data\<close> raises, \<open>load_data\<close> returns with the loaded flag still
  false and the message of the exception recorded.
\<close>

theorem unloaded_error_result:
  "\<not> is_loaded self \<Longrightarrow>
   (\<exists>msg. msg \<noteq> [] \<and>
      get_recommendations self movie_id movie_title n =
        Inr \<lparr>selected_movie = None, recommendations = [], error = Some msg\<rparr>) \<and>
   (\<forall>e. snd (load_body fit_transform fs csv_path self) = Some e \<longrightarrow>
      \<not> is_loaded (load_data fit_transform fs csv_path self) \<and>
      error_message (load_data fit_transform fs csv_path self) =
        Some (case e of FileNotFoundError m \<Rightarrow> m | _ \<Rightarrow> ''Error loading data: '' @ exn_str e))"
proof (rule conjI)
  assume "\<not> is_loaded self"
  then show "\<exists>msg. msg \<noteq> [] \<and>
      get_recommendations self movie_id movie_title n =
        Inr \<lparr>selected_movie = None, recommendations = [], error = Some msg\<rparr>"
    by (simp add: get_recommendations_def get_recommendations_by_def error_result_def message_or_default_def
        split: option.splits)
next
  assume "\<not> is_loaded self"
  then show "\<forall>e. snd (load_body fit_transform fs csv_path self) = Some e \<longrightarrow>
      \<not> is_loaded (load_data fit_transform fs csv_path self) \<and>
      error_message (load_data fit_transform fs csv_path self) =
        Some (case e of FileNotFoundError m \<Rightarrow> m | _ \<Rightarrow> ''Error loading data: '' @ exn_str e)"
    by (auto simp: load_data_def load_body_def handle_exn_def Let_def
        split: option.splits sum.splits py_exn.splits if_splits prod.splits)
qed

theorem unloaded_error_result_witness:
  "\<not> is_loaded init_state \<and>
   get_recommendations init_state (Some 1) None 20 =
     Inr \<lparr>selected_movie = None, recommendations = [], error = Some ''Data not loaded''\<rparr> \<and>
   snd (load_body (\<lambda>docs. Inr []) (\<lambda>p. None) ''movies.csv'' init_state) =
     Some (FileNotFoundError ''No movie dataset found'') \<and>
   \<not> is_loaded (load_data (\<lambda>docs. Inr []) (\<lambda>p. None) ''movies.csv'' init_state) \<and>
   error_message (load_data (\<lambda>docs. Inr []) (\<lambda>p. None) ''movies.csv'' init_state) =
     Some ''No movie dataset found''"
proof -
  have h: "\<not> is_loaded init_state"
    by (simp add: init_state_def)
  have b: "snd (load_body (\<lambda>docs. Inr []) (\<lambda>p. None) ''movies.csv'' init_state) =
     Some (FileNotFoundError ''No movie dataset found'')"
    by (simp add: load_body_def files_to_try_def)
  from unloaded_error_result [OF h, of "Some 1" None 20 "\<lambda>docs. Inr []" "\<lambda>p. None" "''movies.csv''"]
  have "(\<exists>msg. msg \<noteq> [] \<and>
      get_recommendations init_state (Some 1) None 20 =
        Inr \<lparr>selected_movie = None, recommendations = [], error = Some msg\<rparr>) \<and>
    \<not> is_loaded (load_data (\<lambda>docs. Inr []) (\<lambda>p. None) ''movies.csv'' init_state) \<and>
    error_message (load_data (\<lambda>docs. Inr []) (\<lambda>p. None) ''movies.csv'' init_state) =
      Some ''No movie dataset found''"
    using b by simp
  moreover have "get_recommendations init_state (Some 1) None 20 =
     Inr \<lparr>selected_movie = None, recommendations = [], error = Some ''Data not loaded''\<rparr>"
    by (simp add: get_recommendations_def get_recommendations_by_def init_state_def error_result_def message_or_default_def)
  ultimately show ?thesis
    using h b by simp
qed

section \<open>Queries without an identifier\<close>

text \<open>
  C10, as the code has it: on a loaded recommender, \<open>get_recommendations\<close> called without
  a movie id and with a missing or empty title returns the error result with the message
  "Please provide a movie ID or title" and no recommendations, whatever the catalog holds.
\<close>

theorem no_identifier_error:
  "is_loaded self \<Longrightarrow> movie_title = None \<or> movie_title = Some [] \<Longrightarrow>
   get_recommendations self None movie_title n =
     Inr \<lparr>selected_movie = None, recommendations = [],
          error = Some ''Please provide a movie ID or title''\<rparr>"
  by (auto simp: get_recommendations_def get_recommendations_by_def error_result_def)

theorem no_identifier_error_witness:
  "is_loaded (init_state\<lparr>is_loaded := True\<rparr>) \<and>
   get_recommendations (init_state\<lparr>is_loaded := True\<rparr>) None (Some []) 20 =
     Inr \<lparr>selected_movie = None, recommendations = [],
          error = Some ''Please provide a movie ID or title''\<rparr>"
proof -
  have h: "is_loaded (init_state\<lparr>is_loaded := True\<rparr>)"
    by simp
  from no_identifier_error [OF h, of "Some []" 20] show ?thesis
    using h by simp
qed

text \<open>
  C10 as stated fails before a catalog is loaded: the loaded flag is tested first, and the
  result carries the load error instead.
\<close>

theorem no_identifier_unloaded_counterexample:
  "get_recommendations (MovieRecommender (\<lambda>docs. Inr []) (\<lambda>p. None) ''movies.csv'') None None 20 =
     Inr \<lparr>selected_movie = None, recommendations = [],
          error = Some ''No movie dataset found''\<rparr>"
  by (simp add: get_recommendations_def get_recommendations_by_def MovieRecommender_def load_data_def load_body_def
      files_to_try_def handle_exn_def init_state_def message_or_default_def error_result_def)


section \<open>Loading\<close>

lemma drop_dups_keep_first:
  "map snd (drop_dups seen ps) = keep_first (filter (\<lambda>r. title r \<notin> set seen) (map snd ps))"
proof (induction ps arbitrary: seen)
  case Nil
  then show ?case by simp
next
  case (Cons p ps)
  have "filter (\<lambda>q. title q \<noteq> title (snd p)) (filter (\<lambda>r. title r \<notin> set seen) (map snd ps))
      = filter (\<lambda>r. title r \<notin> set (title (snd p) # seen)) (map snd ps)"
    by (auto simp: filter_filter intro: filter_cong)
  with Cons show ?case by simp
qed

lemma set_keep_first: "set (keep_first rs) \<subseteq> set rs"
  by (induction rs rule: keep_first.induct) auto

lemma distinct_keep_first: "distinct (map title (keep_first rs))"
proof (induction rs rule: keep_first.induct)
  case 1
  then show ?case by simp
next
  case (2 r rs)
  have "title r \<notin> title ` set (keep_first (filter (\<lambda>q. title q \<noteq> title r) rs))"
    using set_keep_first [of "filter (\<lambda>q. title q \<noteq> title r) rs"] by auto
  with 2 show ?case by simp
qed

lemma rows_clean_frame:
  "rows (clean_frame d) =
     (let ks = keep_first (filter (\<lambda>r. title r \<noteq> None \<and> genres r \<noteq> None) (map snd (rows d)))
      in zip [0..<length ks] ks)"
proof -
  let ?F = "filter (\<lambda>(i, r). title r \<noteq> None \<and> genres r \<noteq> None) (rows d)"
  let ?K = "keep_first (filter (\<lambda>r. title r \<noteq> None \<and> genres r \<noteq> None) (map snd (rows d)))"
  have "map snd ?F = filter (\<lambda>r. title r \<noteq> None \<and> genres r \<noteq> None) (map snd (rows d))"
    by (simp add: filter_map comp_def case_prod_unfold)
  with drop_dups_keep_first [of "[]" ?F] have a: "map snd (drop_dups [] ?F) = ?K"
    by simp
  from arg_cong [OF a, of length] have b: "length (drop_dups [] ?F) = length ?K"
    by simp
  have "rows (clean_frame d) = zip [0..<length (drop_dups [] ?F)] (map snd (drop_dups [] ?F))"
    by (simp add: clean_frame_def reset_index_def drop_duplicates_def dropna_def)
  with a b show ?thesis
    by (simp add: Let_def)
qed

lemma same_keys_refl: "same_keys d d"
  by (simp add: same_keys_def)

lemma same_keys_trans: "same_keys a b \<Longrightarrow> same_keys b c \<Longrightarrow> same_keys a c"
  by (simp add: same_keys_def)

lemma same_keys_set_column:
  "(\<And>r. movieId (f r) = movieId r \<and> title (f r) = title r \<and> genres (f r) = genres r) \<Longrightarrow>
   same_keys (set_column name f d) d"
  by (auto simp: same_keys_def set_column_def)

lemma same_keys_ensure_column:
  "(\<And>r. movieId (f r) = movieId r \<and> title (f r) = title r \<and> genres (f r) = genres r) \<Longrightarrow>
   same_keys (ensure_column name f d) d"
  by (simp add: ensure_column_def same_keys_set_column same_keys_refl)

lemma same_keys_ensure_columns: "same_keys (ensure_columns d) d"
  unfolding ensure_columns_def Let_def
  by (intro same_keys_trans [OF same_keys_ensure_column] same_keys_ensure_column) simp_all

lemma same_keys_process_genres: "same_keys (process_genres d) d"
  unfolding process_genres_def Let_def
  by (intro same_keys_trans [OF same_keys_set_column] same_keys_set_column) simp_all

lemma same_keys_prepare_frame: "same_keys (prepare_frame d) (clean_frame d)"
  unfolding prepare_frame_def
  by (rule same_keys_trans [OF same_keys_process_genres same_keys_ensure_columns])


lemma first_existing_one_file: "first_existing (one_file d) (files_to_try ''movies.csv'') = Some (Inr d)"
  by (simp add: one_file_def files_to_try_def)

lemmas eval_defs = prepare_frame_def clean_frame_def reset_index_def drop_duplicates_def dropna_def
  ensure_columns_def ensure_column_def set_column_def process_genres_def Let_def
  csv_frame_def csv_row_def blank_row_def str_cell_def clean_title_of_def ends_with_year_def
  str_strip_def str_lstrip_def str_rstrip_def is_space_def is_digit_def digit_val_def
  genre_list_of_def no_genres_listed_def


lemma map_snd_zip_upt: "map (\<lambda>p. f (snd p)) (zip [0..<length ks] ks) = map f ks"
  by (rule nth_equalityI) simp_all

lemma load_data_loaded:
  assumes "first_existing fs (files_to_try csv_path) = Some (Inr d)"
    and "\<not> is_loaded self"
    and "is_loaded (load_data fit_transform fs csv_path self)"
  shows "df (load_data fit_transform fs csv_path self) = Some (prepare_frame d)"
    and "\<exists>m. fit_transform (map (\<lambda>(i, r). genres_processed r) (rows (prepare_frame d))) = Inr m \<and>
           tfidf_matrix (load_data fit_transform fs csv_path self) = Some m"
    and "required_cols \<subseteq> set (columns d)"
  using assms
  by (auto simp: load_data_def load_body_def handle_exn_def Let_def
      split: sum.splits py_exn.splits if_splits)

lemma rows_prepare_frame_keys:
  "map (\<lambda>(i, r). (i, movieId r, title r, genres r)) (rows (prepare_frame d)) =
   map (\<lambda>(i, r). (i, movieId r, title r, genres r)) (rows (clean_frame d))"
  using same_keys_prepare_frame [of d] by (simp add: same_keys_def)

text \<open>
  C9: a successful load leaves the frame that \<open>prepare_frame\<close> builds. Its records are
  the input rows that have a title and a genre string, the first of each title only, in
  input order; their index labels are \<open>0..N-1\<close>; and their titles are distinct.
\<close>

theorem load_cleans_catalog:
  assumes "first_existing fs (files_to_try csv_path) = Some (Inr d)"
    and "\<not> is_loaded self"
    and "is_loaded (load_data fit_transform fs csv_path self)"
  shows "df (load_data fit_transform fs csv_path self) = Some (prepare_frame d) \<and>
    (let ks = keep_first (filter (\<lambda>r. title r \<noteq> None \<and> genres r \<noteq> None) (map snd (rows d)))
     in map fst (rows (prepare_frame d)) = [0..<length ks] \<and>
        map (\<lambda>(i, r). (movieId r, title r, genres r)) (rows (prepare_frame d)) =
          map (\<lambda>r. (movieId r, title r, genres r)) ks) \<and>
    distinct (map (\<lambda>(i, r). title r) (rows (prepare_frame d)))"
proof -
  let ?ks = "keep_first (filter (\<lambda>r. title r \<noteq> None \<and> genres r \<noteq> None) (map snd (rows d)))"
  let ?key = "\<lambda>(i, r). (i, movieId r, title r, genres r)"
  have k: "map ?key (rows (prepare_frame d)) = map ?key (zip [0..<length ?ks] ?ks)"
    using rows_prepare_frame_keys [of d] rows_clean_frame [of d] by (simp add: Let_def)
  have "map fst (rows (prepare_frame d)) = map fst (map ?key (rows (prepare_frame d)))"
    by (simp add: case_prod_unfold comp_def)
  also have "\<dots> = map fst (zip [0..<length ?ks] ?ks)"
    by (simp only: k) (simp add: case_prod_unfold comp_def)
  finally have a: "map fst (rows (prepare_frame d)) = [0..<length ?ks]"
    by simp
  have "map (\<lambda>(i, r). (movieId r, title r, genres r)) (rows (prepare_frame d)) =
        map snd (map ?key (rows (prepare_frame d)))"
    by (simp add: case_prod_unfold comp_def)
  also have "\<dots> = map snd (map ?key (zip [0..<length ?ks] ?ks))"
    by (simp only: k)
  also have "\<dots> = map (\<lambda>p. (movieId (snd p), title (snd p), genres (snd p))) (zip [0..<length ?ks] ?ks)"
    by (simp add: case_prod_unfold comp_def)
  also have "\<dots> = map (\<lambda>r. (movieId r, title r, genres r)) ?ks"
    by (rule map_snd_zip_upt [of "\<lambda>r. (movieId r, title r, genres r)"])
  finally have b: "map (\<lambda>(i, r). (movieId r, title r, genres r)) (rows (prepare_frame d)) =
        map (\<lambda>r. (movieId r, title r, genres r)) ?ks"
    by simp
  have "map (\<lambda>(i, r). title r) (rows (prepare_frame d)) =
        map (\<lambda>(m, t, g). t) (map (\<lambda>(i, r). (movieId r, title r, genres r)) (rows (prepare_frame d)))"
    by (simp add: case_prod_unfold comp_def)
  also have "\<dots> = map title ?ks"
    by (simp only: b) (simp add: comp_def)
  finally have c: "distinct (map (\<lambda>(i, r). title r) (rows (prepare_frame d)))"
    by (simp add: distinct_keep_first)
  from load_data_loaded(1) [OF assms] a b c show ?thesis
    by (simp add: Let_def)
qed

lemma sample_loaded: "is_loaded (load_data sample_vectorizer (one_file sample_frame) ''movies.csv'' init_state)"
  by (simp add: load_data_def load_body_def first_existing_one_file sample_frame_def csv_frame_def
      required_cols_def sample_vectorizer_def Let_def)

theorem load_cleans_catalog_witness:
  "first_existing (one_file sample_frame) (files_to_try ''movies.csv'') = Some (Inr sample_frame) \<and>
   \<not> is_loaded init_state \<and>
   is_loaded (load_data sample_vectorizer (one_file sample_frame) ''movies.csv'' init_state) \<and>
   df (load_data sample_vectorizer (one_file sample_frame) ''movies.csv'' init_state) =
     Some (prepare_frame sample_frame) \<and>
   map (\<lambda>(i, r). (i, movieId r, title r, genres r)) (rows (prepare_frame sample_frame)) =
     [(0, 1, Some ''Heat (1995)'', Some ''Action''),
      (1, 3, Some ''Big (1988)'', Some ''Comedy''),
      (2, 6, Some ''Speed (1994)'', Some ''Action'')] \<and>
   distinct (map (\<lambda>(i, r). title r) (rows (prepare_frame sample_frame)))"
proof -
  have h: "\<not> is_loaded init_state"
    by (simp add: init_state_def)
  have e: "map (\<lambda>(i, r). (i, movieId r, title r, genres r)) (rows (prepare_frame sample_frame)) =
     [(0, 1, Some ''Heat (1995)'', Some ''Action''),
      (1, 3, Some ''Big (1988)'', Some ''Comedy''),
      (2, 6, Some ''Speed (1994)'', Some ''Action'')]"
    by (simp add: sample_frame_def eval_defs)
  from load_cleans_catalog [OF first_existing_one_file h sample_loaded] e show ?thesis
    using h first_existing_one_file sample_loaded by simp
qed

lemma ensure_column_rows:
  "rows (ensure_column name f d) =
     (if name \<in> set (columns d) then rows d else map (\<lambda>(i, r). (i, f r)) (rows d))"
  by (simp add: ensure_column_def set_column_def)

lemma ensure_column_columns:
  "set (columns (ensure_column name f d)) = insert name (set (columns d))"
  by (auto simp: ensure_column_def set_column_def)

lemma ensure_columns_defaults:
  assumes "(i, r) \<in> set (rows (ensure_columns d))"
  shows "(''rating'' \<notin> set (columns d) \<longrightarrow> rating r = Some 7) \<and>
         (''vote_count'' \<notin> set (columns d) \<longrightarrow> vote_count r = Some 1000) \<and>
         (''popularity'' \<notin> set (columns d) \<longrightarrow> popularity r = Some 50)"
  using assms
  by (auto simp: ensure_columns_def Let_def ensure_column_rows ensure_column_columns split: if_splits)

lemma process_genres_keeps:
  assumes "(i, r) \<in> set (rows (process_genres d))"
  shows "\<exists>r'. (i, r') \<in> set (rows d) \<and> rating r = rating r' \<and> vote_count r = vote_count r' \<and>
           popularity r = popularity r'"
  using assms by (auto simp: process_genres_def Let_def set_column_def)

lemma columns_clean_frame: "columns (clean_frame d) = columns d"
  by (simp add: clean_frame_def reset_index_def drop_duplicates_def dropna_def)

text \<open>
  C8, as the code has it: the defaults are given per column. After a successful load, if
  the input has no rating column every record has rating 7.0, if it has no vote count
  column every record has vote count 1000, and if it has no popularity column every record
  has popularity 50.0.
\<close>

theorem defaults_for_missing_columns:
  assumes "first_existing fs (files_to_try csv_path) = Some (Inr d)"
    and "\<not> is_loaded self"
    and "is_loaded (load_data fit_transform fs csv_path self)"
  shows "df (load_data fit_transform fs csv_path self) = Some (prepare_frame d) \<and>
    (\<forall>(i, r) \<in> set (rows (prepare_frame d)).
       (''rating'' \<notin> set (columns d) \<longrightarrow> rating r = Some 7.0) \<and>
       (''vote_count'' \<notin> set (columns d) \<longrightarrow> vote_count r = Some 1000) \<and>
       (''popularity'' \<notin> set (columns d) \<longrightarrow> popularity r = Some 50.0))"
proof -
  have "\<forall>(i, r) \<in> set (rows (prepare_frame d)).
       (''rating'' \<notin> set (columns d) \<longrightarrow> rating r = Some 7.0) \<and>
       (''vote_count'' \<notin> set (columns d) \<longrightarrow> vote_count r = Some 1000) \<and>
       (''popularity'' \<notin> set (columns d) \<longrightarrow> popularity r = Some 50.0)"
  proof (clarify, intro conjI impI)
    fix i r assume m: "(i, r) \<in> set (rows (prepare_frame d))"
    then obtain r' where r': "(i, r') \<in> set (rows (ensure_columns (clean_frame d)))"
      "rating r = rating r'" "vote_count r = vote_count r'" "popularity r = popularity r'"
      unfolding prepare_frame_def using process_genres_keeps by blast
    note dflt = ensure_columns_defaults [OF r'(1), unfolded columns_clean_frame]
    { assume "''rating'' \<notin> set (columns d)" with dflt r' show "rating r = Some 7.0" by simp }
    { assume "''vote_count'' \<notin> set (columns d)" with dflt r' show "vote_count r = Some 1000" by simp }
    { assume "''popularity'' \<notin> set (columns d)" with dflt r' show "popularity r = Some 50.0" by simp }
  qed
  with load_data_loaded(1) [OF assms] show ?thesis by simp
qed

theorem defaults_for_missing_columns_witness:
  "first_existing (one_file sample_frame) (files_to_try ''movies.csv'') = Some (Inr sample_frame) \<and>
   \<not> is_loaded init_state \<and>
   is_loaded (load_data sample_vectorizer (one_file sample_frame) ''movies.csv'' init_state) \<and>
   ''rating'' \<notin> set (columns sample_frame) \<and>
   ''vote_count'' \<notin> set (columns sample_frame) \<and>
   ''popularity'' \<notin> set (columns sample_frame) \<and>
   rows (prepare_frame sample_frame) \<noteq> [] \<and>
   list_all (\<lambda>(i, r). rating r = Some 7.0 \<and> vote_count r = Some 1000 \<and> popularity r = Some 50.0)
     (rows (prepare_frame sample_frame))"
proof -
  have h: "\<not> is_loaded init_state"
    by (simp add: init_state_def)
  have c: "''rating'' \<notin> set (columns sample_frame)"
    "''vote_count'' \<notin> set (columns sample_frame)"
    "''popularity'' \<notin> set (columns sample_frame)"
    by (simp_all add: sample_frame_def csv_frame_def)
  have n: "rows (prepare_frame sample_frame) \<noteq> []"
    by (simp add: sample_frame_def eval_defs)
  from defaults_for_missing_columns [OF first_existing_one_file h sample_loaded] c
  have "list_all (\<lambda>(i, r). rating r = Some 7.0 \<and> vote_count r = Some 1000 \<and> popularity r = Some 50.0)
     (rows (prepare_frame sample_frame))"
    by (auto simp: list_all_iff)
  with h c n first_existing_one_file sample_loaded show ?thesis
    by simp
qed

text \<open>
  C8 as stated fails for a record whose cell is empty in a column that the input has:
  no default is filled in, the cell stays empty.
\<close>

theorem empty_cell_keeps_no_default_counterexample:
  "is_loaded (MovieRecommender sample_vectorizer (one_file rated_frame) ''movies.csv'') \<and>
   map_option (\<lambda>d. map (\<lambda>(i, r). (title r, rating r, vote_count r, popularity r)) (rows d))
     (df (MovieRecommender sample_vectorizer (one_file rated_frame) ''movies.csv'')) =
     Some [(Some ''Heat (1995)'', None, None, None)]"
  by (simp add: MovieRecommender_def load_data_def load_body_def first_existing_one_file
      rated_frame_def required_cols_def sample_vectorizer_def init_state_def eval_defs)



section \<open>Resolving a title\<close>

lemma first_index_filter: "first_index (filter P xs) = map_option fst (find P xs)"
  by (induction xs) (auto simp: first_index_def)

lemma find_movie_resolve:
  assumes "catalog_ok self" and "df self = Some d"
  shows "find_movie self query = Inr (resolve_title (rows d) (str_strip (str_lower query)))"
  using assms
  by (auto simp: find_movie_def catalog_ok_def resolve_title_def first_index_filter Let_def
      split: option.splits)

lemma find_first_at:
  assumes "j < length xs" and "P (xs ! j)" and "\<forall>k<j. \<not> P (xs ! k)"
  shows "find P xs = Some (xs ! j)"
  using assms by (auto simp: find_Some_iff)

lemmas eval_load = MovieRecommender_def load_data_def load_body_def first_existing_one_file
  required_cols_def sample_vectorizer_def init_state_def

lemmas eval_str = str_lower_def lower_char_def lower_eq_def lower_contains_def char_of_def bit_0

lemma str_lower_accents:
  "str_lower ([CHR 0xC9, CHR 0xD7, CHR 0xDF] @ ''Ab 1'') = [CHR 0xE9, CHR 0xD7, CHR 0xDF] @ ''ab 1''"
  by (simp add: eval_str)

lemma str_strip_spaces:
  "str_strip ([CHR 0xA0, CHR 0x09] @ ''a b'' @ [CHR 0x85, CHR 0x20]) = ''a b''"
  by (simp add: str_strip_def str_lstrip_def str_rstrip_def is_space_def)

lemma sample_state_df: "df sample_state = Some (prepare_frame sample_frame)"
  by (simp add: sample_state_def eval_load sample_frame_def csv_frame_def Let_def)

lemma sample_rows:
  "\<exists>r0 r1 r2. rows (prepare_frame sample_frame) = [(0, r0), (1, r1), (2, r2)] \<and>
     title r0 = Some ''Heat (1995)'' \<and> clean_title r0 = Some ''Heat'' \<and>
     title r1 = Some ''Big (1988)'' \<and> clean_title r1 = Some ''Big'' \<and>
     title r2 = Some ''Speed (1994)'' \<and> clean_title r2 = Some ''Speed''"
  by (simp add: sample_frame_def eval_defs)

lemma sample_state_ok: "catalog_ok sample_state"
  by (simp add: catalog_ok_def sample_state_def eval_load sample_frame_def eval_defs)

text \<open>
  C5, as the code has it: the query is lower-cased and trimmed first. On a loaded catalog
  \<open>find_movie\<close> then returns, without raising, the first record whose lower-cased raw title
  equals that query, else the first whose lower-cased clean title equals it, else the
  first whose lower-cased clean title contains it, else \<open>None\<close>. In particular a query that
  has no blanks at its ends and is the raw title of a record resolves to that record,
  provided no earlier record has the same title up to case.
\<close>

theorem find_movie_precedence:
  assumes "catalog_ok self" and "df self = Some d"
  shows "find_movie self query = Inr (resolve_title (rows d) (str_strip (str_lower query))) \<and>
    (\<forall>j i r. j < length (rows d) \<and> rows d ! j = (i, r) \<and> title r = Some query \<and>
        str_strip (str_lower query) = str_lower query \<and>
        (\<forall>k<j. \<not> lower_eq (title (snd (rows d ! k))) (str_lower query))
      \<longrightarrow> find_movie self query = Inr (Some i))"
proof (intro conjI allI impI)
  show r: "find_movie self query = Inr (resolve_title (rows d) (str_strip (str_lower query)))"
    by (rule find_movie_resolve [OF assms])
  fix j i r
  assume a: "j < length (rows d) \<and> rows d ! j = (i, r) \<and> title r = Some query \<and>
        str_strip (str_lower query) = str_lower query \<and>
        (\<forall>k<j. \<not> lower_eq (title (snd (rows d ! k))) (str_lower query))"
  let ?P = "\<lambda>(i, r). lower_eq (title r) (str_lower query)"
  have "find ?P (rows d) = Some (rows d ! j)"
  proof (rule find_first_at)
    show "j < length (rows d)" using a by simp
    show "?P (rows d ! j)" using a by (simp add: lower_eq_def)
    show "\<forall>k<j. \<not> ?P (rows d ! k)" using a by (simp add: case_prod_unfold)
  qed
  with a have "resolve_title (rows d) (str_lower query) = Some i"
    by (simp add: resolve_title_def)
  with r a show "find_movie self query = Inr (Some i)"
    by simp
qed

theorem find_movie_precedence_witness:
  "catalog_ok sample_state \<and> df sample_state = Some (prepare_frame sample_frame) \<and>
   map (\<lambda>(i, r). (i, title r, clean_title r)) (rows (prepare_frame sample_frame)) =
     [(0, Some ''Heat (1995)'', Some ''Heat''),
      (1, Some ''Big (1988)'', Some ''Big''),
      (2, Some ''Speed (1994)'', Some ''Speed'')] \<and>
   str_strip (str_lower ''Big (1988)'') = str_lower ''Big (1988)'' \<and>
   \<not> lower_eq (Some ''Heat (1995)'') (str_lower ''Big (1988)'') \<and>
   find_movie sample_state ''Big (1988)'' = Inr (Some 1) \<and>
   find_movie sample_state '' SPEED '' = Inr (Some 2) \<and>
   find_movie sample_state ''ea'' = Inr (Some 0) \<and>
   find_movie sample_state ''Alien'' = Inr None"
proof -
  note p = find_movie_precedence [OF sample_state_ok sample_state_df]
  from sample_rows obtain r0 r1 r2 where
    rs: "rows (prepare_frame sample_frame) = [(0, r0), (1, r1), (2, r2)]" and
    t: "title r0 = Some ''Heat (1995)''" "clean_title r0 = Some ''Heat''"
       "title r1 = Some ''Big (1988)''" "clean_title r1 = Some ''Big''"
       "title r2 = Some ''Speed (1994)''" "clean_title r2 = Some ''Speed''"
    by blast
  have s: "str_strip (str_lower ''Big (1988)'') = str_lower ''Big (1988)''"
    by (simp add: eval_str str_strip_def str_lstrip_def str_rstrip_def is_space_def)
  have n: "\<not> lower_eq (Some ''Heat (1995)'') (str_lower ''Big (1988)'')"
    by (simp add: eval_str)
  have "find_movie sample_state ''Big (1988)'' = Inr (Some 1)"
    using p [of "''Big (1988)''", THEN conjunct2, rule_format, of 1 1 r1] rs t s n by simp
  moreover have "find_movie sample_state '' SPEED '' = Inr (Some 2)"
    using p [of "'' SPEED ''", THEN conjunct1]
    by (simp add: rs t resolve_title_def eval_str str_strip_def str_lstrip_def str_rstrip_def
        is_space_def)
  moreover have "find_movie sample_state ''ea'' = Inr (Some 0)"
    using p [of "''ea''", THEN conjunct1]
    by (simp add: rs t resolve_title_def eval_str str_strip_def str_lstrip_def str_rstrip_def
        is_space_def)
  moreover have "find_movie sample_state ''Alien'' = Inr None"
    using p [of "''Alien''", THEN conjunct1]
    by (simp add: rs t resolve_title_def eval_str str_strip_def str_lstrip_def str_rstrip_def
        is_space_def)
  ultimately show ?thesis
    using sample_state_ok sample_state_df s n by (simp add: rs t)
qed

text \<open>
  C5 as stated fails for a raw title with a blank at an end: the query that is exactly
  that raw title is trimmed before it is compared, the title is not, and nothing is found.
\<close>

theorem find_movie_padded_title_counterexample:
  "is_loaded (MovieRecommender sample_vectorizer (one_file padded_frame) ''movies.csv'') \<and>
   map_option (\<lambda>d. map (\<lambda>(i, r). (i, title r, clean_title r)) (rows d))
     (df (MovieRecommender sample_vectorizer (one_file padded_frame) ''movies.csv'')) =
     Some [(0, Some ''Big (1988)'', Some ''Big''), (1, Some ''Heat (1995) '', Some ''Heat'')] \<and>
   map_option (\<lambda>d. resolve_title (rows d) (str_lower ''Heat (1995) ''))
     (df (MovieRecommender sample_vectorizer (one_file padded_frame) ''movies.csv'')) =
     Some (Some 1) \<and>
   find_movie (MovieRecommender sample_vectorizer (one_file padded_frame) ''movies.csv'')
     ''Heat (1995) '' = Inr None"
  by (simp add: eval_load padded_frame_def eval_defs find_movie_def first_index_def eval_str
      resolve_title_def)


section \<open>Rounding and cosine similarity\<close>

lemma round_half_even_bounds: "\<lfloor>y\<rfloor> \<le> round_half_even y \<and> round_half_even y \<le> \<lfloor>y\<rfloor> + 1"
  by (simp add: round_half_even_def Let_def)

lemma round_half_even_mono:
  assumes "x \<le> y"
  shows "round_half_even x \<le> round_half_even y"
proof (cases "\<lfloor>x\<rfloor> = \<lfloor>y\<rfloor>")
  case True
  with assms have "x - of_int \<lfloor>x\<rfloor> \<le> y - of_int \<lfloor>y\<rfloor>"
    by simp
  with True show ?thesis
    by (auto simp: round_half_even_def Let_def)
next
  case False
  with assms have "\<lfloor>x\<rfloor> < \<lfloor>y\<rfloor>"
    using floor_mono [OF assms] by linarith
  with round_half_even_bounds [of x] round_half_even_bounds [of y] show ?thesis
    by linarith
qed

lemma py_round1_mono: "x \<le> y \<Longrightarrow> py_round1 x \<le> py_round1 y"
  by (simp add: py_round1_def round_half_even_mono divide_right_mono)

lemma round_half_even_of_int: "round_half_even (of_int k) = k"
  by (simp add: round_half_even_def Let_def)














section \<open>Building the recommendations\<close>

lemma movie_to_dict_fields:
  assumes "movie_to_dict cols r rank sim = Inr m"
  shows "m_id m = movieId r" and "m_title m = title r" and "m_rank m = rank"
    and "m_similarity_score m = map_option (\<lambda>s. py_round1 (s * 100)) sim"
  using assms by (auto simp: movie_to_dict_def split: if_splits option.splits)

lemma movie_to_dict_returns:
  assumes "''movieId'' \<in> set cols" and "''title'' \<in> set cols" and "vote_count r \<noteq> None"
  shows "\<exists>m. movie_to_dict cols r rank sim = Inr m"
  using assms by (auto simp: movie_to_dict_def row_get_def split: option.splits)

lemma build_recommendations_fields:
  assumes "build_recommendations d scores rank ixs = Inr ms"
  shows "list_all (\<lambda>j. j < length (rows d)) ixs \<and>
     map m_id ms = map (\<lambda>j. movieId (snd (rows d ! j))) ixs \<and>
     map m_title ms = map (\<lambda>j. title (snd (rows d ! j))) ixs \<and>
     map m_similarity_score ms = map (\<lambda>j. Some (py_round1 (scores ! j * 100))) ixs \<and>
     map m_rank ms = map Some [rank..<rank + length ixs]"
  using assms
proof (induction ixs arbitrary: rank ms)
  case Nil
  then show ?case by simp
next
  case (Cons j ixs)
  from Cons.prems obtain r m ms' where
    r: "iloc d j = Inr r" and
    m: "movie_to_dict (columns d) r (Some rank) (Some (scores ! j)) = Inr m" and
    b: "build_recommendations d scores (Suc rank) ixs = Inr ms'" and
    ms: "ms = m # ms'"
    by (auto split: sum.splits)
  from r have j: "j < length (rows d)" "r = snd (rows d ! j)"
    by (auto simp: iloc_def split: if_splits)
  have u: "[rank..<rank + length (j # ixs)] = rank # [Suc rank..<Suc rank + length ixs]"
    using upt_conv_Cons [of rank "rank + length (j # ixs)"] by (simp del: upt_Suc)
  from Cons.IH [OF b] movie_to_dict_fields [OF m] j ms show ?case
    unfolding u by (simp del: upt_Suc)
qed

lemma build_recommendations_returns:
  assumes "list_all (\<lambda>j. j < length (rows d)) ixs"
    and "''movieId'' \<in> set (columns d)" and "''title'' \<in> set (columns d)"
    and "list_all (\<lambda>r. vote_count r \<noteq> None) (map snd (rows d))"
  shows "\<exists>ms. build_recommendations d scores rank ixs = Inr ms"
  using assms(1)
proof (induction ixs arbitrary: rank)
  case Nil
  then show ?case by simp
next
  case (Cons j ixs)
  then have j: "j < length (rows d)" and rest: "list_all (\<lambda>j. j < length (rows d)) ixs"
    by simp_all
  from j assms(4) have "vote_count (snd (rows d ! j)) \<noteq> None"
    by (simp add: list_all_length)
  from movie_to_dict_returns [OF assms(2) assms(3) this]
  obtain m where m: "movie_to_dict (columns d) (snd (rows d ! j)) (Some rank) (Some (scores ! j)) = Inr m"
    by blast
  from Cons.IH [OF rest, of "Suc rank"] obtain ms where
    "build_recommendations d scores (Suc rank) ixs = Inr ms"
    by blast
  with m j show ?case
    by (simp add: iloc_def)
qed

lemma recommend_at_Inr:
  assumes "recommend_at sorter self idx n = Inr r"
  shows "\<exists>d M sel. df self = Some d \<and> tfidf_matrix self = Some M \<and>
     idx < length (rows d) \<and> idx < length M \<and>
     movie_to_dict (columns d) (snd (rows d ! idx)) None None = Inr sel \<and>
     selected_movie r = Some sel \<and> error r = None \<and>
     build_recommendations d (cosine_similarity (M ! idx) M) 1
       (similar_indices sorter (cosine_similarity (M ! idx) M) idx n) = Inr (recommendations r)"
  using assms
  by (auto simp: recommend_at_def iloc_def Let_def split: option.splits sum.splits if_splits)

lemma get_recommendations_by_Inr:
  assumes "get_recommendations_by sorter self movie_id movie_title n = Inr r"
  shows "(selected_movie r = None \<and> recommendations r = [] \<and> error r \<noteq> None) \<or>
     (\<exists>idx. recommend_at sorter self idx n = Inr r)"
  using assms
  by (auto simp: get_recommendations_by_def error_result_def
      split: option.splits sum.splits if_splits)

section \<open>Ranking\<close>

lemma argsort_spec_argsort: "argsort_spec argsort"
  by (simp add: argsort_spec_def argsort_def)

lemma slice_to_take: "\<exists>k. slice_to n xs = take k xs"
  by (auto simp: slice_to_def)


lemma similar_indices_sorted:
  assumes "argsort_spec sorter"
  shows "sorted_wrt (\<lambda>a b. scores ! b \<le> scores ! a) (similar_indices sorter scores idx n)"
proof -
  obtain k where k: "similar_indices sorter scores idx n =
      take k (filter (\<lambda>i. i \<noteq> idx) (rev (sorter scores)))"
    unfolding similar_indices_def using slice_to_take by blast
  from assms have "sorted (map (\<lambda>i. scores ! i) (sorter scores))"
    by (simp add: argsort_spec_def)
  then have "sorted_wrt (\<lambda>a b. scores ! a \<le> scores ! b) (sorter scores)"
    by (simp add: sorted_wrt_map)
  then have "sorted_wrt (\<lambda>a b. scores ! b \<le> scores ! a) (rev (sorter scores))"
    by (simp add: sorted_wrt_rev)
  then have "sorted_wrt (\<lambda>a b. scores ! b \<le> scores ! a)
      (filter (\<lambda>i. i \<noteq> idx) (rev (sorter scores)))"
    by (rule sorted_wrt_filter)
  then show ?thesis
    unfolding k by (rule sorted_wrt_take)
qed

lemma length_filter_neq:
  assumes "distinct xs" and "x \<in> set xs"
  shows "length (filter (\<lambda>i. i \<noteq> x) xs) = length xs - 1"
  using assms
proof (induction xs)
  case Nil
  then show ?case by simp
next
  case (Cons a xs)
  show ?case
  proof (cases "a = x")
    case True
    with Cons.prems have "filter (\<lambda>i. i \<noteq> x) xs = xs"
      by (auto intro: filter_True)
    with True show ?thesis by simp
  next
    case False
    with Cons have "length (filter (\<lambda>i. i \<noteq> x) xs) = length xs - 1" and "xs \<noteq> []"
      by auto
    with False show ?thesis by (cases xs) simp_all
  qed
qed

lemma argsort_spec_length:
  assumes "argsort_spec sorter"
  shows "length (sorter xs) = length xs"
proof -
  from assms have "distinct (sorter xs)" and "set (sorter xs) = {0..<length xs}"
    by (simp_all add: argsort_spec_def)
  then show ?thesis
    using distinct_card [of "sorter xs"] by simp
qed

lemma similar_indices_length:
  assumes "argsort_spec sorter" and "idx < length scores" and "0 \<le> n"
  shows "length (similar_indices sorter scores idx n) = min (nat n) (length scores - 1)"
proof -
  from assms(1) have d: "distinct (rev (sorter scores))"
    and s: "set (rev (sorter scores)) = {0..<length scores}"
    by (simp_all add: argsort_spec_def)
  from assms(2) s have "idx \<in> set (rev (sorter scores))"
    by simp
  from length_filter_neq [OF d this] argsort_spec_length [OF assms(1), of scores]
  have "length (filter (\<lambda>i. i \<noteq> idx) (rev (sorter scores))) = length scores - 1"
    by simp
  with assms(3) show ?thesis
    by (simp add: similar_indices_def slice_to_def)
qed

lemma similar_indices_bound:
  assumes "argsort_spec sorter"
  shows "list_all (\<lambda>j. j < length scores) (similar_indices sorter scores idx n)"
proof -
  obtain k where k: "similar_indices sorter scores idx n =
      take k (filter (\<lambda>i. i \<noteq> idx) (rev (sorter scores)))"
    unfolding similar_indices_def using slice_to_take by blast
  from assms have "set (sorter scores) = {0..<length scores}"
    by (simp add: argsort_spec_def)
  then show ?thesis
    unfolding k list_all_iff by (auto dest!: in_set_takeD)
qed

lemma length_cosine_similarity: "length (cosine_similarity x Y) = length Y"
  by (simp add: cosine_similarity_def)


section \<open>Index labels\<close>

lemma first_index_position:
  assumes "map fst rs = [0..<length rs]" and "first_index (filter P rs) = Some i"
  shows "i < length rs \<and> fst (rs ! i) = i \<and> P (rs ! i)"
proof -
  from assms(2) obtain r where "find P rs = Some (i, r)"
    by (auto simp: first_index_filter)
  then obtain k where k: "k < length rs" "P (rs ! k)" "(i, r) = rs ! k"
    by (auto simp: find_Some_iff)
  from k(1) assms(1) have "fst (rs ! k) = k"
    by (metis nth_map nth_upt add_0 length_map)
  with k show ?thesis
    by (metis fst_conv)
qed

lemma first_index_exists:
  assumes "\<exists>p \<in> set rs. P p"
  shows "\<exists>i. first_index (filter P rs) = Some i"
proof -
  from assms have "find P rs \<noteq> None"
    by (auto simp: find_None_iff)
  then show ?thesis
    by (auto simp: first_index_filter)
qed
section \<open>The sample catalog with ties\<close>

lemma tie_state_df: "df tie_state = Some (prepare_frame tie_frame)"
  by (simp add: tie_state_def eval_load tie_frame_def csv_frame_def Let_def)

lemma tie_rows:
  "\<exists>r0 r1 r2 r3. rows (prepare_frame tie_frame) = [(0, r0), (1, r1), (2, r2), (3, r3)] \<and>
     movieId r0 = 1 \<and> title r0 = Some ''Heat (1995)'' \<and> vote_count r0 = Some 1000 \<and>
     movieId r1 = 2 \<and> title r1 = Some ''Speed (1994)'' \<and> vote_count r1 = Some 1000 \<and>
     movieId r2 = 3 \<and> title r2 = Some ''Ronin (1998)'' \<and> vote_count r2 = Some 1000 \<and>
     movieId r3 = 4 \<and> title r3 = Some ''Big (1988)'' \<and> vote_count r3 = Some 1000"
  by (simp add: tie_frame_def eval_defs)

lemma tie_columns:
  "{''movieId'', ''title'', ''clean_title''} \<subseteq> set (columns (prepare_frame tie_frame))"
  by (simp add: tie_frame_def eval_defs)

lemma tie_state_matrix:
  "tfidf_matrix tie_state = Some [[1, 0, 0], [1, 0, 0], [1, 0, 0], [0, 1, 0]]"
  by (simp add: tie_state_def eval_load tie_frame_def eval_defs)

lemma tie_state_loaded: "is_loaded tie_state"
  by (simp add: tie_state_def eval_load tie_frame_def csv_frame_def Let_def)

lemma tie_scores:
  "cosine_similarity [1, 0, 0] [[1, 0, 0], [1, 0, 0], [1, 0, 0], [0, 1, 0]] = [1, 1, 1, 0]"
  by (simp add: cosine_similarity_def normalize_def l2_norm_def dot_def)

lemma tie_similar_indices: "similar_indices argsort [1, 1, 1, 0] 0 20 = [2, 1, 3]"
  by (simp add: similar_indices_def argsort_def slice_to_def upt_rec)

lemma py_round1_examples: "py_round1 (1 * 100) = 100 \<and> py_round1 (0 * 100) = 0"
  using round_half_even_of_int [of 1000] round_half_even_of_int [of 0]
  by (simp add: py_round1_def)
section \<open>Recommendations for a movie of the catalog\<close>

lemma catalog_ok_parts:
  assumes "catalog_ok self" and "df self = Some d"
  shows "is_loaded self" and "map fst (rows d) = [0..<length (rows d)]"
    and "distinct (map (\<lambda>(i, r). title r) (rows d))"
    and "''movieId'' \<in> set (columns d)" and "''title'' \<in> set (columns d)"
    and "\<exists>M. tfidf_matrix self = Some M \<and> length M = length (rows d)"
  using assms by (auto simp: catalog_ok_def split: option.splits)

lemma recommend_at_returns:
  assumes ok: "catalog_ok self" and d: "df self = Some d" and spec: "argsort_spec sorter"
    and votes: "votes_present self" and idx: "idx < length (rows d)"
  shows "\<exists>r. recommend_at sorter self idx n = Inr r"
proof -
  from catalog_ok_parts(6) [OF ok d] obtain M where
    M: "tfidf_matrix self = Some M" "length M = length (rows d)"
    by blast
  note cols = catalog_ok_parts(4) [OF ok d] catalog_ok_parts(5) [OF ok d]
  from votes d have v: "list_all (\<lambda>r. vote_count r \<noteq> None) (map snd (rows d))"
    by (simp add: votes_present_def catalog_rows_def)
  with idx have "vote_count (snd (rows d ! idx)) \<noteq> None"
    by (simp add: list_all_length)
  from movie_to_dict_returns [OF cols this] obtain sel where
    sel: "movie_to_dict (columns d) (snd (rows d ! idx)) None None = Inr sel"
    by blast
  let ?scores = "cosine_similarity (M ! idx) M"
  have "list_all (\<lambda>j. j < length (rows d)) (similar_indices sorter ?scores idx n)"
    using similar_indices_bound [OF spec, of ?scores idx n] M(2)
    by (simp add: length_cosine_similarity)
  from build_recommendations_returns [OF this cols v] obtain ms where
    "build_recommendations d ?scores 1 (similar_indices sorter ?scores idx n) = Inr ms"
    by blast
  with d M sel idx show ?thesis
    by (simp add: recommend_at_def iloc_def Let_def)
qed

lemma get_recommendations_by_id:
  assumes ok: "catalog_ok self" and d: "df self = Some d"
    and mid: "mid \<in> movieId ` set (catalog_rows self)"
  shows "\<exists>idx. idx < length (rows d) \<and> movieId (snd (rows d ! idx)) = mid \<and>
     get_recommendations_by sorter self (Some mid) movie_title n = recommend_at sorter self idx n"
proof -
  let ?P = "\<lambda>(i, r). movieId r = mid"
  from mid d have "\<exists>p \<in> set (rows d). ?P p"
    by (auto simp: catalog_rows_def)
  from first_index_exists [OF this] obtain idx where
    f: "first_index (filter ?P (rows d)) = Some idx"
    by blast
  from first_index_position [OF catalog_ok_parts(2) [OF ok d] f]
  have "idx < length (rows d)" "movieId (snd (rows d ! idx)) = mid"
    by (auto simp: case_prod_unfold)
  moreover have "get_recommendations_by sorter self (Some mid) movie_title n =
      recommend_at sorter self idx n"
    using catalog_ok_parts(1) [OF ok d] catalog_ok_parts(4) [OF ok d] d f
    by (simp add: get_recommendations_by_def)
  ultimately show ?thesis
    by blast
qed

lemma recommendations_length:
  assumes ok: "catalog_ok self" and d: "df self = Some d" and spec: "argsort_spec sorter"
    and votes: "votes_present self" and mid: "mid \<in> movieId ` set (catalog_rows self)"
    and k: "0 \<le> k"
  shows "\<exists>r. get_recommendations_by sorter self (Some mid) movie_title k = Inr r \<and>
     error r = None \<and>
     length (recommendations r) = min (nat k) (length (rows d) - 1) \<and>
     map m_rank (recommendations r) = map Some [1..<1 + min (nat k) (length (rows d) - 1)]"
proof -
  from get_recommendations_by_id [OF ok d mid] obtain idx where
    idx: "idx < length (rows d)" and
    g: "get_recommendations_by sorter self (Some mid) movie_title k = recommend_at sorter self idx k"
    by blast
  from recommend_at_returns [OF ok d spec votes idx] obtain r where
    r: "recommend_at sorter self idx k = Inr r"
    by blast
  from catalog_ok_parts(6) [OF ok d] obtain M where
    M: "tfidf_matrix self = Some M" "length M = length (rows d)"
    by blast
  let ?scores = "cosine_similarity (M ! idx) M"
  let ?sims = "similar_indices sorter ?scores idx k"
  from recommend_at_Inr [OF r] d M have
    e: "error r = None" and
    b: "build_recommendations d ?scores 1 ?sims = Inr (recommendations r)"
    by auto
  from build_recommendations_fields [OF b] have
    i: "map m_id (recommendations r) = map (\<lambda>j. movieId (snd (rows d ! j))) ?sims" and
    rk: "map m_rank (recommendations r) = map Some [1..<1 + length ?sims]"
    by blast+
  from arg_cong [OF i, of length] have l: "length (recommendations r) = length ?sims"
    by simp
  have len: "length ?sims = min (nat k) (length (rows d) - 1)"
    using similar_indices_length [OF spec _ k, of idx ?scores] idx M(2)
    by (simp add: length_cosine_similarity)
  from rk l show ?thesis
    unfolding len using g r e by (simp del: upt_Suc)
qed

lemma dot_scale: "dot (map (\<lambda>a. a / c) x) (map (\<lambda>b. b / e) y) = dot x y / (c * e)"
proof (induction x arbitrary: y)
  case Nil
  then show ?case by (simp add: dot_def)
next
  case (Cons a x)
  then show ?case
    by (cases y) (simp_all add: dot_def add_divide_distrib)
qed

lemma cosine_formula:
  assumes "l2_norm x \<noteq> 0" and "l2_norm y \<noteq> 0"
  shows "dot (normalize x) (normalize y) = dot x y / (l2_norm x * l2_norm y)"
  using assms by (simp add: normalize_def Let_def dot_scale)

lemma tie_state_ok: "catalog_ok tie_state"
  using tie_rows tie_columns tie_state_loaded
  by (auto simp: catalog_ok_def tie_state_df tie_state_matrix)

lemma tie_result:
  obtains r sel where
    "get_recommendations_by argsort tie_state (Some 1) None 20 = Inr r"
    and "error r = None" and "selected_movie r = Some sel"
    and "m_title sel = Some ''Heat (1995)''"
    and "map m_id (recommendations r) = [3, 2, 4]"
    and "map m_title (recommendations r) =
       [Some ''Ronin (1998)'', Some ''Speed (1994)'', Some ''Big (1988)'']"
    and "map m_similarity_score (recommendations r) = [Some 100, Some 100, Some 0]"
    and "map m_rank (recommendations r) = [Some 1, Some 2, Some 3]"
proof -
  from tie_rows obtain r0 r1 r2 r3 where
    rs: "rows (prepare_frame tie_frame) = [(0, r0), (1, r1), (2, r2), (3, r3)]" and
    f: "movieId r0 = 1" "title r0 = Some ''Heat (1995)''" "vote_count r0 = Some 1000"
       "movieId r1 = 2" "title r1 = Some ''Speed (1994)''" "vote_count r1 = Some 1000"
       "movieId r2 = 3" "title r2 = Some ''Ronin (1998)''" "vote_count r2 = Some 1000"
       "movieId r3 = 4" "title r3 = Some ''Big (1988)''" "vote_count r3 = Some 1000"
    by (elim exE conjE)
  have v: "votes_present tie_state"
    by (simp add: votes_present_def catalog_rows_def tie_state_df rs f)
  have m: "(1 :: int) \<in> movieId ` set (catalog_rows tie_state)"
    by (simp add: catalog_rows_def tie_state_df rs f)
  from get_recommendations_by_id [OF tie_state_ok tie_state_df m, of argsort None 20]
  obtain idx where
    idx: "idx < length (rows (prepare_frame tie_frame))"
      "movieId (snd (rows (prepare_frame tie_frame) ! idx)) = 1" and
    g: "get_recommendations_by argsort tie_state (Some 1) None 20 =
          recommend_at argsort tie_state idx 20"
    by (elim exE conjE)
  from idx have i0: "idx = 0"
    by (cases idx) (auto simp: rs f nth_Cons split: nat.splits)
  from recommend_at_returns [OF tie_state_ok tie_state_df argsort_spec_argsort v idx(1), of 20]
  obtain r where r: "recommend_at argsort tie_state idx 20 = Inr r"
    by (elim exE)
  from recommend_at_Inr [OF r] obtain sel where
    s: "selected_movie r = Some sel" "error r = None"
      "movie_to_dict (columns (prepare_frame tie_frame)) (snd (rows (prepare_frame tie_frame) ! 0))
         None None = Inr sel" and
    b: "build_recommendations (prepare_frame tie_frame) [1, 1, 1, 0] 1 [2, 1, 3] =
          Inr (recommendations r)"
    by (auto simp: i0 tie_state_df tie_state_matrix tie_scores tie_similar_indices)
  from movie_to_dict_fields(2) [OF s(3)] have t: "m_title sel = Some ''Heat (1995)''"
    by (simp add: rs f)
  from build_recommendations_fields [OF b] py_round1_examples
  have "map m_id (recommendations r) = [3, 2, 4]"
    and "map m_title (recommendations r) =
       [Some ''Ronin (1998)'', Some ''Speed (1994)'', Some ''Big (1988)'']"
    and "map m_similarity_score (recommendations r) = [Some 100, Some 100, Some 0]"
    and "map m_rank (recommendations r) = [Some 1, Some 2, Some 3]"
    by (simp_all add: rs f upt_rec)
  with g r s t show thesis
    by (intro that [of r sel]) simp_all
qed
text \<open>
  C1, as the code has it: whatever sort stands behind \<open>argsort()\<close>, as long as it keeps
  the contract of \<open>argsort\<close>, every result that \<open>get_recommendations\<close> returns lists its
  recommendations by descending similarity score: each carries a score, and the scores
  read from the last to the first are ascending. Nothing is promised about the order of
  movies with equal scores.
\<close>

theorem recommendations_sorted_by_score:
  assumes "argsort_spec sorter"
    and "get_recommendations_by sorter self movie_id movie_title n = Inr r"
  shows "\<exists>ss. map m_similarity_score (recommendations r) = map Some ss \<and> sorted (rev ss)"
proof -
  from get_recommendations_by_Inr [OF assms(2)] show ?thesis
  proof
    assume "selected_movie r = None \<and> recommendations r = [] \<and> error r \<noteq> None"
    then have "map m_similarity_score (recommendations r) = map Some [] \<and> sorted (rev ([] :: real list))"
      by simp
    then show ?thesis by blast
  next
    assume "\<exists>idx. recommend_at sorter self idx n = Inr r"
    then obtain idx where "recommend_at sorter self idx n = Inr r"
      by blast
    from recommend_at_Inr [OF this] obtain d scores where
      b: "build_recommendations d scores 1 (similar_indices sorter scores idx n) =
            Inr (recommendations r)"
      by blast
    let ?sims = "similar_indices sorter scores idx n"
    let ?g = "\<lambda>j. py_round1 (scores ! j * 100)"
    from build_recommendations_fields [OF b]
    have m: "map m_similarity_score (recommendations r) = map Some (map ?g ?sims)"
      by (simp add: comp_def)
    from similar_indices_sorted [OF assms(1), of scores idx n]
    have "sorted_wrt (\<lambda>a b. ?g b \<le> ?g a) ?sims"
      by (rule sorted_wrt_mono_rel [rotated]) (simp add: py_round1_mono)
    then have "sorted (rev (map ?g ?sims))"
      by (simp add: sorted_wrt_rev sorted_wrt_map rev_map [symmetric] del: rev_map)
    with m show ?thesis
      by blast
  qed
qed

theorem recommendations_sorted_by_score_witness:
  "argsort_spec argsort \<and>
   (\<exists>r. get_recommendations_by argsort tie_state (Some 1) None 20 = Inr r \<and>
      map m_similarity_score (recommendations r) = [Some 100, Some 100, Some 0] \<and>
      (\<exists>ss. map m_similarity_score (recommendations r) = map Some ss \<and> sorted (rev ss)))"
proof -
  obtain r sel where
    r: "get_recommendations_by argsort tie_state (Some 1) None 20 = Inr r" and
    e: "error r = None" and
    s: "selected_movie r = Some sel" and
    t: "m_title sel = Some ''Heat (1995)''" and
    i: "map m_id (recommendations r) = [3, 2, 4]" and
    u: "map m_title (recommendations r) =
        [Some ''Ronin (1998)'', Some ''Speed (1994)'', Some ''Big (1988)'']" and
    c: "map m_similarity_score (recommendations r) = [Some 100, Some 100, Some 0]" and
    k: "map m_rank (recommendations r) = [Some 1, Some 2, Some 3]"
    by (rule tie_result)
  from recommendations_sorted_by_score [OF argsort_spec_argsort r]
  have "\<exists>ss. map m_similarity_score (recommendations r) = map Some ss \<and> sorted (rev ss)" .
  with r c argsort_spec_argsort show ?thesis
    by (intro conjI exI [of _ r])
qed

text \<open>
  C1 as stated fails on ties. Three films have the genre string of the query film and so
  its vector; the stable sort puts their positions in ascending order, the reversal turns
  that round, and the film at ordinal 2 is listed before the film at ordinal 1, both with
  the score 100.
\<close>

theorem ranking_ties_counterexample:
  "df tie_state = Some (prepare_frame tie_frame) \<and>
   map (\<lambda>(i, r). (i, movieId r, title r)) (rows (prepare_frame tie_frame)) =
     [(0, 1, Some ''Heat (1995)''), (1, 2, Some ''Speed (1994)''),
      (2, 3, Some ''Ronin (1998)''), (3, 4, Some ''Big (1988)'')] \<and>
   (case get_recommendations tie_state (Some 1) None 20 of
      Inl e \<Rightarrow> None
    | Inr r \<Rightarrow> Some (map m_id (recommendations r), map m_similarity_score (recommendations r))) =
     Some ([3, 2, 4], [Some 100, Some 100, Some 0])"
proof -
  from tie_rows have "map (\<lambda>(i, r). (i, movieId r, title r)) (rows (prepare_frame tie_frame)) =
     [(0, 1, Some ''Heat (1995)''), (1, 2, Some ''Speed (1994)''),
      (2, 3, Some ''Ronin (1998)''), (3, 4, Some ''Big (1988)'')]"
    by (elim exE conjE) simp
  moreover
  obtain r sel where
    r: "get_recommendations_by argsort tie_state (Some 1) None 20 = Inr r" and
    e: "error r = None" and
    s: "selected_movie r = Some sel" and
    t: "m_title sel = Some ''Heat (1995)''" and
    i: "map m_id (recommendations r) = [3, 2, 4]" and
    u: "map m_title (recommendations r) =
        [Some ''Ronin (1998)'', Some ''Speed (1994)'', Some ''Big (1988)'']" and
    c: "map m_similarity_score (recommendations r) = [Some 100, Some 100, Some 0]" and
    k: "map m_rank (recommendations r) = [Some 1, Some 2, Some 3]"
    by (rule tie_result)
  ultimately show ?thesis
    using tie_state_df r i c by (simp add: get_recommendations_def)
qed




lemma recommendations_length_example:
  "\<exists>r. get_recommendations_by argsort tie_state (Some 1) None 2 = Inr r \<and> error r = None \<and>
     length (recommendations r) = 2 \<and> map m_rank (recommendations r) = [Some 1, Some 2]"
proof -
  from tie_rows obtain r0 r1 r2 r3 where
    rs: "rows (prepare_frame tie_frame) = [(0, r0), (1, r1), (2, r2), (3, r3)]" and
    f: "movieId r0 = 1" "title r0 = Some ''Heat (1995)''" "vote_count r0 = Some 1000"
       "movieId r1 = 2" "title r1 = Some ''Speed (1994)''" "vote_count r1 = Some 1000"
       "movieId r2 = 3" "title r2 = Some ''Ronin (1998)''" "vote_count r2 = Some 1000"
       "movieId r3 = 4" "title r3 = Some ''Big (1988)''" "vote_count r3 = Some 1000"
    by (elim exE conjE)
  have v: "votes_present tie_state"
    by (simp add: votes_present_def catalog_rows_def tie_state_df rs f)
  have m: "(1 :: int) \<in> movieId ` set (catalog_rows tie_state)"
    by (simp add: catalog_rows_def tie_state_df rs f)
  from recommendations_length [OF tie_state_ok tie_state_df argsort_spec_argsort v m, of 2 None]
  show ?thesis
    by (simp add: rs upt_rec numeral_2_eq_2)
qed

lemma voteless_rows:
  "\<exists>r0 r1. rows (prepare_frame voteless_frame) = [(0, r0), (1, r1)] \<and>
     movieId r0 = 1 \<and> vote_count r0 = Some 12 \<and> movieId r1 = 2 \<and> vote_count r1 = None"
  by (simp add: voteless_frame_def eval_defs)

lemma voteless_columns:
  "''movieId'' \<in> set (columns (prepare_frame voteless_frame)) \<and>
   ''title'' \<in> set (columns (prepare_frame voteless_frame)) \<and>
   ''vote_count'' \<in> set (columns (prepare_frame voteless_frame))"
  by (simp add: voteless_frame_def eval_defs)

lemma voteless_state:
  "MovieRecommender sample_vectorizer (one_file voteless_frame) ''movies.csv'' =
     \<lparr>df = Some (prepare_frame voteless_frame), tfidf_matrix = Some [[1, 0, 0], [1, 0, 0]],
      is_loaded = True, error_message = None\<rparr>"
  by (simp add: eval_load voteless_frame_def eval_defs)

lemma voteless_scores: "cosine_similarity [1, 0, 0] [[1, 0, 0], [1, 0, 0]] = [1, 1]"
  by (simp add: cosine_similarity_def normalize_def l2_norm_def dot_def)

lemma voteless_similar_indices: "similar_indices argsort [1, 1] 0 20 = [1]"
  by (simp add: similar_indices_def argsort_def slice_to_def upt_rec)

text \<open>
  C2: for a movie id of a loaded catalog of \<open>N\<close> records and \<open>k \<ge> 0\<close>, \<open>get_recommendations\<close>
  returns \<open>min k (N - 1)\<close> recommendations and no error. The code does so when every record
  has a vote count (lemma \<open>recommendations_length\<close>). When the file has a vote count column
  and a record leaves it empty, building the dictionary of that record raises: here the
  query is the first of two records, the second has no vote count, and the call ends in
  a ValueError instead of returning one recommendation.
\<close>

theorem missing_vote_count_raises:
  "is_loaded (MovieRecommender sample_vectorizer (one_file voteless_frame) ''movies.csv'') \<and>
   map_option (\<lambda>d. map (\<lambda>(i, r). (i, movieId r, vote_count r)) (rows d))
     (df (MovieRecommender sample_vectorizer (one_file voteless_frame) ''movies.csv'')) =
     Some [(0, 1, Some 12), (1, 2, None)] \<and>
   get_recommendations (MovieRecommender sample_vectorizer (one_file voteless_frame) ''movies.csv'')
     (Some 1) None 20 = Inl (ValueError ''cannot convert float NaN to integer'')"
proof -
  from voteless_rows obtain r0 r1 where
    rs: "rows (prepare_frame voteless_frame) = [(0, r0), (1, r1)]" and
    f: "movieId r0 = 1" "vote_count r0 = Some 12" "movieId r1 = 2" "vote_count r1 = None"
    by (elim exE conjE)
  show ?thesis
    unfolding voteless_state
    using voteless_columns
    by (simp add: rs f get_recommendations_def get_recommendations_by_def first_index_def
        recommend_at_def iloc_def movie_to_dict_def row_get_def voteless_scores
        voteless_similar_indices)
qed

end
